theory Spec2Isabelle
  imports Main "HOL-Library.Word"
begin

section \<open>Errors, panics and bytes\<close>

text \<open>
  A Go function that returns \<^verbatim>\<open>(value, error)\<close> is modelled with the result type
  \<open>error + 'a\<close> (\<open>Inl\<close> the error). A run that ends in a panic instead of returning is
  the separate value \<open>Panic\<close> of \<open>'a outcome\<close>.

  \<open>ErrorsNew msg\<close> is an error built with \<^verbatim>\<open>errors.New(msg)\<close> in the code under study,
  \<open>Collaborator msg\<close> is an error value handed back by a collaborator (the store, the file
  system, the HTTP client, the address resolver); \<open>ErrMediaTooLarge\<close> and
  \<open>ErrPreviewUnsupported\<close> are the two sentinel errors the fetcher returns.
\<close>

datatype error =
    ErrorsNew string
  | Collaborator string
  | ErrMediaTooLarge
  | ErrPreviewUnsupported

datatype 'a outcome = Panic string | Return 'a

type_synonym bytes = "8 word list"

section \<open>The safe HTTP fetcher: \<^verbatim>\<open>url_previewing/http.go\<close>\<close>

subsection \<open>Data\<close>

text \<open>
  \<^verbatim>\<open>urlPayload.ParsedUrl\<close> is a \<^verbatim>\<open>*url.URL\<close>: \<open>Host\<close> is the authority as written in
  the URL, so it holds the port when the URL names one (\<^verbatim>\<open>example.org:8080\<close>).
\<close>

record URL =
  Scheme :: string
  Host :: string
  Path :: string

definition URL_String :: "URL \<Rightarrow> string" where
  "URL_String u = Scheme u @ ''://'' @ Host u @ Path u"

record UrlPayload =
  ParsedUrl :: URL

text \<open>
  The options of \<^verbatim>\<open>ctx.Config\<close> the fetcher reads: \<^verbatim>\<open>UrlPreviews.UnsafeCertificates\<close>,
  \<^verbatim>\<open>UrlPreviews.UserAgent\<close>, \<^verbatim>\<open>UrlPreviews.MaxPageSizeBytes\<close> (an int64, only compared
  and used as a length) and \<^verbatim>\<open>TimeoutSeconds.UrlPreviews\<close>.
\<close>

record Config =
  UnsafeCertificates :: bool
  UserAgent :: string
  MaxPageSizeBytes :: int
  TimeoutSeconds :: int

text \<open>A \<^verbatim>\<open>net.IP\<close>, held by the text its \<^verbatim>\<open>String()\<close> method prints.\<close>

datatype IP = IP string

fun IP_String :: "IP \<Rightarrow> string" where
  "IP_String (IP s) = s"

text \<open>
  What a dial function does with a request to connect: it gives up with an error, or it
  hands a network and an address to the operating system's dialer. Two calls of the
  source reach the dialer: \<^verbatim>\<open>dialer.DialContext(ctx, network, returnAddr)\<close> in the
  connection hook, and \<^verbatim>\<open>net.Dial(network, addr)\<close> followed by a TLS handshake with an
  empty server name in the \<^verbatim>\<open>DialTLS\<close> function.
\<close>

datatype dial =
    DialError error
  | DialerDialContext string string
  | NetDialTLS string string

record Transport =
  DisableKeepAlives :: bool
  DialContext :: "string \<Rightarrow> string \<Rightarrow> dial"
  InsecureSkipVerify :: bool
  DialTLS :: "(string \<Rightarrow> string \<Rightarrow> dial) option"

record Client =
  ClientTransport :: Transport
  Timeout :: int

record Request =
  Method :: string
  RequestURL :: string
  RequestHeader :: "(string \<times> string) list"

text \<open>
  An \<^verbatim>\<open>http.Response\<close>: the status code, the declared \<^verbatim>\<open>ContentLength\<close> (\<open>-1\<close> when
  unknown), the headers by canonical name, and the bytes the body would yield if read
  to its end.
\<close>

record Response =
  StatusCode :: int
  ContentLength :: int
  Header :: "string \<rightharpoonup> string"
  Body :: bytes

definition Header_Get :: "(string \<rightharpoonup> string) \<Rightarrow> string \<Rightarrow> string" where
  "Header_Get h key = (case h key of None \<Rightarrow> [] | Some v \<Rightarrow> v)"

record Image =
  ContentType :: string
  Data :: bytes
  Filename :: string

datatype log_entry = Info string | Warn string

text \<open>
  The collaborators of the fetcher, as fields of its environment:
  \<^item> \<open>getSafeAddress\<close>: the address resolver \<^verbatim>\<open>getSafeAddress(addr, ctx)\<close>, which is not
    part of the file: the IP and the port it returns, or its error;
  \<^item> \<open>NewRequest\<close>: \<^verbatim>\<open>http.NewRequest(method, url, nil)\<close>;
  \<^item> \<open>ClientDo\<close>: \<^verbatim>\<open>client.Do(req)\<close>, the network included;
  \<^item> \<open>Glob\<close>: \<^verbatim>\<open>glob.Glob(pattern, subject)\<close>;
  \<^item> \<open>ParseMediaType\<close>: \<^verbatim>\<open>mime.ParseMediaType(v)\<close>, its parameter map (\<open>None\<close> for a
    nil map) and its error;
  \<^item> \<open>ToUtf8\<close>: \<^verbatim>\<open>util.ToUtf8(text, contentType)\<close>.
\<close>

record http_env =
  getSafeAddress :: "string \<Rightarrow> error + IP \<times> string"
  NewRequest :: "string \<Rightarrow> string \<Rightarrow> error + Request"
  ClientDo :: "Client \<Rightarrow> Request \<Rightarrow> error + Response"
  Glob :: "string \<Rightarrow> string \<Rightarrow> bool"
  ParseMediaType :: "string \<Rightarrow> (string \<rightharpoonup> string) option \<times> error option"
  ToUtf8 :: "bytes \<Rightarrow> string \<Rightarrow> string"

subsection \<open>Library functions\<close>

text \<open>
  \<^verbatim>\<open>net.JoinHostPort\<close>: a host with a colon in it is put in brackets.
\<close>

definition JoinHostPort :: "string \<Rightarrow> string \<Rightarrow> string" where
  "JoinHostPort host port =
     (if CHR '':'' \<in> set host then ''['' @ host @ '']:'' @ port else host @ '':'' @ port)"

text \<open>\<^verbatim>\<open>strconv.Itoa\<close>: the decimal digits, with a minus sign for a negative number.\<close>

definition digit_char :: "nat \<Rightarrow> char" where
  "digit_char d = ''0123456789'' ! d"

function digits :: "nat \<Rightarrow> string" where
  "digits n = (if n < 10 then [digit_char n] else digits (n div 10) @ [digit_char (n mod 10)])"
  by pat_completeness auto
termination
  by (relation "measure id") auto

declare digits.simps [simp del]

definition Itoa :: "int \<Rightarrow> string" where
  "Itoa i = (if i < 0 then CHR ''-'' # digits (nat (- i)) else digits (nat i))"

text \<open>
  Which dial function an \<^verbatim>\<open>http.Transport\<close> without a proxy calls to open the
  connection for a request, as \<^verbatim>\<open>net/http\<close> documents it: for an \<^verbatim>\<open>https\<close> URL the
  \<^verbatim>\<open>DialTLS\<close> function when one is set (if DialTLS is set, the Dial and DialContext
  hooks are not used for HTTPS requests), in every other case \<^verbatim>\<open>DialContext\<close>. The
  network is \<^verbatim>\<open>tcp\<close> and the address is the host and port of the URL being fetched,
  also for each URL a redirect leads to.
\<close>

definition Transport_dial :: "Transport \<Rightarrow> string \<Rightarrow> string \<Rightarrow> dial" where
  "Transport_dial t scheme addr =
     (if scheme = ''https''
      then (case DialTLS t of
              Some f \<Rightarrow> f ''tcp'' addr
            | None \<Rightarrow> DialContext t ''tcp'' addr)
      else DialContext t ''tcp'' addr)"

subsection \<open>Operations\<close>

text \<open>
  Lines 45 to 56 of \<^verbatim>\<open>dialContext\<close>: the port the request is expected on and the
  alternate port, from the port the resolver returned and the scheme of the URL.
\<close>

definition expectedPorts :: "UrlPayload \<Rightarrow> string \<Rightarrow> error + string \<times> string" where
  "expectedPorts urlPayload safePort =
     (if safePort = [] then
        (if Scheme (ParsedUrl urlPayload) = ''http'' then Inr (''80'', ''443'')
         else if Scheme (ParsedUrl urlPayload) = ''https'' then Inr (''443'', ''80'')
         else Inl (ErrorsNew ''unexpected scheme: cannot determine port''))
      else Inr (safePort, []))"

text \<open>The connection hook \<^verbatim>\<open>dialContext\<close> of \<^verbatim>\<open>doHttpGet\<close>.\<close>

definition dialContext :: "http_env \<Rightarrow> UrlPayload \<Rightarrow> string \<Rightarrow> string \<Rightarrow> dial" where
  "dialContext env urlPayload network addr =
     (if network \<noteq> ''tcp'' then DialError (ErrorsNew ''invalid network: expected tcp'')
      else case getSafeAddress env addr of
        Inl err \<Rightarrow> DialError err
      | Inr (safeIp, port) \<Rightarrow>
      (case expectedPorts urlPayload port of
        Inl err \<Rightarrow> DialError err
      | Inr (safePort, altPort) \<Rightarrow>
          (let safeIpStr = IP_String safeIp;
               expectedAddr = JoinHostPort (Host (ParsedUrl urlPayload)) safePort;
               altAddr = JoinHostPort (Host (ParsedUrl urlPayload)) altPort;
               returnAddr =
                 (if addr = expectedAddr then JoinHostPort safeIpStr safePort
                  else if addr = altAddr \<and> altPort \<noteq> [] then JoinHostPort safeIpStr altPort
                  else [])
           in if returnAddr \<noteq> [] then DialerDialContext network returnAddr
              else DialError (ErrorsNew ''unexpected host: not safe to complete request''))))"

text \<open>
  The \<^verbatim>\<open>DialTLS\<close> function of the transport built when certificates are not checked:
  \<^verbatim>\<open>net.Dial(network, addr)\<close> on the address as requested, then the handshake.
\<close>

definition dialTLS :: "string \<Rightarrow> string \<Rightarrow> dial" where
  "dialTLS network addr = NetDialTLS network addr"

text \<open>The client \<^verbatim>\<open>doHttpGet\<close> builds, lines 77 to 112.\<close>

definition doHttpGet_client :: "http_env \<Rightarrow> UrlPayload \<Rightarrow> Config \<Rightarrow> Client" where
  "doHttpGet_client env urlPayload config =
     (if UnsafeCertificates config then
        \<lparr>ClientTransport =
           \<lparr>DisableKeepAlives = True, DialContext = dialContext env urlPayload,
            InsecureSkipVerify = True, DialTLS = Some dialTLS\<rparr>,
         Timeout = TimeoutSeconds config\<rparr>
      else
        \<lparr>ClientTransport =
           \<lparr>DisableKeepAlives = True, DialContext = dialContext env urlPayload,
            InsecureSkipVerify = False, DialTLS = None\<rparr>,
         Timeout = TimeoutSeconds config\<rparr>)"

definition doHttpGet ::
  "http_env \<Rightarrow> UrlPayload \<Rightarrow> string \<Rightarrow> Config \<Rightarrow> log_entry list \<times> (error + Response)" where
  "doHttpGet env urlPayload languageHeader config =
     (let client = doHttpGet_client env urlPayload config;
          log = (if UnsafeCertificates config
                 then [Warn ''Ignoring any certificate errors while making request'']
                 else [])
      in case NewRequest env ''GET'' (URL_String (ParsedUrl urlPayload)) of
           Inl err \<Rightarrow> (log, Inl err)
         | Inr req \<Rightarrow>
             (log, ClientDo env client
                (req\<lparr>RequestHeader :=
                   (''Accept-Language'', languageHeader)
                   # (''User-Agent'', UserAgent config) # RequestHeader req\<rparr>)))"

text \<open>
  The loop over \<^verbatim>\<open>supportedTypes\<close> in \<^verbatim>\<open>downloadRawContent\<close>: \<open>True\<close> when the loop
  returns \<^verbatim>\<open>ErrPreviewUnsupported\<close>.
\<close>

fun unsupportedType :: "http_env \<Rightarrow> string list \<Rightarrow> string \<Rightarrow> bool" where
  "unsupportedType env [] contentType = False"
| "unsupportedType env (supportedType # supportedTypes) contentType =
     (if \<not> Glob env supportedType contentType then True
      else unsupportedType env supportedTypes contentType)"

definition params_filename :: "(string \<rightharpoonup> string) \<Rightarrow> string" where
  "params_filename params = (case params ''filename'' of None \<Rightarrow> [] | Some v \<Rightarrow> v)"

text \<open>
  \<^verbatim>\<open>downloadRawContent\<close>. The reader it returns is \<open>None\<close> for a nil \<^verbatim>\<open>io.ReadCloser\<close>
  and otherwise the bytes the reader yields when read to its end: an
  \<^verbatim>\<open>io.LimitReader(resp.Body, n)\<close> yields the first \<open>n\<close> bytes of the body.
\<close>

definition downloadRawContent ::
  "http_env \<Rightarrow> UrlPayload \<Rightarrow> string list \<Rightarrow> string \<Rightarrow> Config
     \<Rightarrow> log_entry list \<times> (error + bytes option \<times> string \<times> string)" where
  "downloadRawContent env urlPayload supportedTypes languageHeader config =
     (case doHttpGet env urlPayload languageHeader config of
        (log, Inl err) \<Rightarrow> (Info ''Fetching remote content...'' # log, Inl err)
      | (log, Inr resp) \<Rightarrow>
          if StatusCode resp \<noteq> 200 then
            (Info ''Fetching remote content...'' # log
               @ [Warn (''Received status code '' @ Itoa (StatusCode resp))],
             Inl (ErrorsNew ''error during transfer''))
          else if MaxPageSizeBytes config > 0 \<and> ContentLength resp \<ge> 0
                  \<and> ContentLength resp > MaxPageSizeBytes config then
            (Info ''Fetching remote content...'' # log, Inl ErrMediaTooLarge)
          else
            (let reader = (if MaxPageSizeBytes config > 0
                           then Some (take (nat (MaxPageSizeBytes config)) (Body resp))
                           else None);
                 contentType = Header_Get (Header resp) ''Content-Type''
             in if unsupportedType env supportedTypes contentType then
                  (Info ''Fetching remote content...'' # log, Inl ErrPreviewUnsupported)
                else
                  (let disposition = Header_Get (Header resp) ''Content-Disposition'';
                       filename = (case fst (ParseMediaType env disposition) of
                                     None \<Rightarrow> []
                                   | Some params \<Rightarrow> params_filename params)
                   in (Info ''Fetching remote content...'' # log,
                       Inr (reader, filename, contentType)))))"

text \<open>
  \<^verbatim>\<open>downloadHtmlContent\<close>: \<^verbatim>\<open>defer r.Close()\<close> on a nil reader is a nil pointer
  dereference, so the call panics. On a reader that is not nil, \<^verbatim>\<open>io.ReadAll\<close> gives
  the bytes the reader yields, in a slice that is never nil.
\<close>

definition downloadHtmlContent ::
  "http_env \<Rightarrow> UrlPayload \<Rightarrow> string list \<Rightarrow> string \<Rightarrow> Config
     \<Rightarrow> log_entry list \<times> (error + string) outcome" where
  "downloadHtmlContent env urlPayload supportedTypes languageHeader config =
     (case downloadRawContent env urlPayload supportedTypes languageHeader config of
        (log, Inl err) \<Rightarrow> (log, Return (Inl err))
      | (log, Inr (r, filename, contentType)) \<Rightarrow>
          (case r of
             None \<Rightarrow> (log, Panic ''nil pointer dereference'')
           | Some raw \<Rightarrow> (log, Return (Inr (ToUtf8 env raw contentType)))))"

definition downloadImage ::
  "http_env \<Rightarrow> UrlPayload \<Rightarrow> string \<Rightarrow> Config \<Rightarrow> log_entry list \<times> (error + Image)" where
  "downloadImage env urlPayload languageHeader config =
     (case doHttpGet env urlPayload languageHeader config of
        (log, Inl err) \<Rightarrow>
          (Info (''Getting image from '' @ URL_String (ParsedUrl urlPayload)) # log, Inl err)
      | (log, Inr resp) \<Rightarrow>
          if StatusCode resp \<noteq> 200 then
            (Info (''Getting image from '' @ URL_String (ParsedUrl urlPayload)) # log
               @ [Warn (''Received status code '' @ Itoa (StatusCode resp))],
             Inl (ErrorsNew ''error during transfer''))
          else
            (let image = \<lparr>ContentType = Header_Get (Header resp) ''Content-Type'',
                          Data = Body resp, Filename = []\<rparr>
             in case ParseMediaType env (Header_Get (Header resp) ''Content-Disposition'') of
                  (params, err) \<Rightarrow>
                    (Info (''Getting image from '' @ URL_String (ParsedUrl urlPayload)) # log,
                     Inr (if err = None
                             \<and> (case params of None \<Rightarrow> [] | Some p \<Rightarrow> params_filename p) \<noteq> []
                          then image\<lparr>Filename :=
                                 (case params of None \<Rightarrow> [] | Some p \<Rightarrow> params_filename p)\<rparr>
                          else image))))"

section \<open>The media service: \<^verbatim>\<open>media_service.go\<close>\<close>

subsection \<open>Data\<close>

text \<open>\<^verbatim>\<open>types.Media\<close>, with the fields \<^verbatim>\<open>StoreMedia\<close> reads and writes.\<close>

record Media =
  Origin :: string
  MediaId :: string
  UploadName :: string
  ContentType :: string
  UserId :: string
  Sha256Hash :: string
  SizeBytes :: int
  Location :: string
  CreationTs :: int

text \<open>
  The collaborators of \<^verbatim>\<open>StoreMedia\<close> are not part of the file; each is a field of the
  environment, applied to the arguments the code passes:
  \<^item> \<open>GenerateRandomString\<close>: \<^verbatim>\<open>util.GenerateRandomString(64)\<close>;
  \<^item> \<open>PersistFile\<close>: \<^verbatim>\<open>storage.PersistFile(contents, ...)\<close>, the location it wrote to;
  \<^item> \<open>GetFileHash\<close>: \<^verbatim>\<open>storage.GetFileHash(location)\<close>;
  \<^item> \<open>GetByHash\<close>: \<^verbatim>\<open>s.store.GetByHash(hash)\<close>, the records in the order the store gives them;
  \<^item> \<open>FileExists\<close>: \<^verbatim>\<open>util.FileExists(path)\<close> on the current file system;
  \<^item> \<open>FileSize\<close>: \<^verbatim>\<open>util.FileSize(location)\<close>;
  \<^item> \<open>Insert\<close>: \<^verbatim>\<open>s.store.Insert(media)\<close>, \<open>None\<close> for a nil error;
  \<^item> \<open>NowMillis\<close>: \<^verbatim>\<open>util.NowMillis()\<close>.
\<close>

record media_env =
  GenerateRandomString :: "error + string"
  PersistFile :: "bytes \<Rightarrow> error + string"
  GetFileHash :: "string \<Rightarrow> error + string"
  GetByHash :: "string \<Rightarrow> error + Media list"
  FileExists :: "string set \<Rightarrow> string \<Rightarrow> bool \<times> error option"
  FileSize :: "string \<Rightarrow> error + int"
  Insert :: "Media \<Rightarrow> error option"
  NowMillis :: int

text \<open>
  The file system is the set of paths that hold a file. \<^verbatim>\<open>os.Remove\<close> and
  \<^verbatim>\<open>os.Rename\<close> are the operating system's; the code ignores their errors, and the
  model takes them on a file system where removing and renaming an existing file work
  (renaming a missing file changes nothing, renaming a file onto itself leaves it).
\<close>

definition os_Remove :: "string set \<Rightarrow> string \<Rightarrow> string set" where
  "os_Remove fs path = fs - {path}"

definition os_Rename :: "string set \<Rightarrow> string \<Rightarrow> string \<Rightarrow> string set" where
  "os_Rename fs oldpath newpath =
     (if oldpath \<in> fs then insert newpath (fs - {oldpath}) else fs)"

text \<open>
  What a call of \<^verbatim>\<open>StoreMedia\<close> leaves behind: how it ended, the file system, and the
  records it handed to \<^verbatim>\<open>store.Insert\<close>, in order.
\<close>

record store_result =
  outcome :: "(error + Media) outcome"
  files :: "string set"
  insertCalls :: "Media list"

subsection \<open>Operations\<close>

text \<open>\<^verbatim>\<open>generateMediaId\<close> panics when no random string can be made.\<close>

definition generateMediaId :: "media_env \<Rightarrow> string outcome" where
  "generateMediaId env =
     (case GenerateRandomString env of
        Inl err \<Rightarrow> Panic ''GenerateRandomString''
      | Inr str \<Rightarrow> Return str)"

text \<open>
  The first lines of \<^verbatim>\<open>StoreMedia\<close>: an empty \<^verbatim>\<open>mediaId\<close> is replaced by a generated
  one.
\<close>

definition requestMediaId :: "media_env \<Rightarrow> string \<Rightarrow> string outcome" where
  "requestMediaId env mediaId =
     (if mediaId = '''' then generateMediaId env else Return mediaId)"

definition overwriteExistingOrDeleteTempFile ::
  "media_env \<Rightarrow> string set \<Rightarrow> string \<Rightarrow> Media \<Rightarrow> string set" where
  "overwriteExistingOrDeleteTempFile env fs tempFileLocation media =
     (case FileExists env fs (Location media) of
        (exists, err) \<Rightarrow>
          if (\<exists>e. err = Some e) \<or> \<not> exists
          then os_Rename fs tempFileLocation (Location media)
          else os_Remove fs tempFileLocation)"

text \<open>
  The loop over \<^verbatim>\<open>records\<close>. The variable \<^verbatim>\<open>media\<close> is a pointer, nil before the
  first round (\<open>None\<close>). The loop either returns from inside with the record that
  matches host and media id (\<open>Matched\<close>) or runs to the end and leaves \<^verbatim>\<open>media\<close> at
  the last record it looked at (\<open>Unmatched\<close>).
\<close>

datatype scan = Matched Media | Unmatched "Media option"

fun scanRecords :: "string \<Rightarrow> string \<Rightarrow> bool \<Rightarrow> Media option \<Rightarrow> Media list \<Rightarrow> scan" where
  "scanRecords host mediaId isGeneratedId media [] = Unmatched media"
| "scanRecords host mediaId isGeneratedId media (r # records) =
     (if Origin r = host \<and> (MediaId r = mediaId \<or> isGeneratedId)
      then Matched r
      else scanRecords host mediaId isGeneratedId (Some r) records)"

definition StoreMedia ::
  "media_env \<Rightarrow> string set \<Rightarrow> bytes \<Rightarrow> string \<Rightarrow> string \<Rightarrow> string \<Rightarrow> string \<Rightarrow> string
     \<Rightarrow> store_result" where
  "StoreMedia env fs contents contentType filename userId host requestedId =
     (let isGeneratedId = (requestedId = '''') in
      case requestMediaId env requestedId of
        Panic p \<Rightarrow> \<lparr>outcome = Panic p, files = fs, insertCalls = []\<rparr>
      | Return mediaId \<Rightarrow>
      (case PersistFile env contents of
        Inl err \<Rightarrow> \<lparr>outcome = Return (Inl err), files = fs, insertCalls = []\<rparr>
      | Inr fileLocation \<Rightarrow>
      (let fs1 = insert fileLocation fs in
       case GetFileHash env fileLocation of
        Inl err \<Rightarrow>
          \<lparr>outcome = Return (Inl err), files = os_Remove fs1 fileLocation, insertCalls = []\<rparr>
      | Inr hash \<Rightarrow>
      (case GetByHash env hash of
        Inl err \<Rightarrow>
          \<lparr>outcome = Return (Inl err), files = os_Remove fs1 fileLocation, insertCalls = []\<rparr>
      | Inr records \<Rightarrow>
          if length records > 0 then
            (case scanRecords host mediaId isGeneratedId None records of
               Matched media \<Rightarrow>
                 \<lparr>outcome = Return (Inr media),
                  files = overwriteExistingOrDeleteTempFile env fs1 fileLocation media,
                  insertCalls = []\<rparr>
             | Unmatched None \<Rightarrow>
                 \<lparr>outcome = Panic ''nil pointer dereference'', files = fs1, insertCalls = []\<rparr>
             | Unmatched (Some last_record) \<Rightarrow>
                 (let media = last_record
                        \<lparr>Origin := host, UserId := userId, MediaId := mediaId,
                         UploadName := filename, ContentType := contentType,
                         CreationTs := NowMillis env\<rparr>
                  in case Insert env media of
                       Some err \<Rightarrow>
                         \<lparr>outcome = Return (Inl err), files = fs1, insertCalls = [media]\<rparr>
                     | None \<Rightarrow>
                         \<lparr>outcome = Return (Inr media),
                          files = overwriteExistingOrDeleteTempFile env fs1 fileLocation media,
                          insertCalls = [media]\<rparr>))
          else
            (case FileSize env fileLocation of
               Inl err \<Rightarrow>
                 \<lparr>outcome = Return (Inl err), files = os_Remove fs1 fileLocation,
                  insertCalls = []\<rparr>
             | Inr fileSize \<Rightarrow>
                 (let media = \<lparr>Origin = host, MediaId = mediaId, UploadName = filename,
                               ContentType = contentType, UserId = userId, Sha256Hash = hash,
                               SizeBytes = fileSize, Location = fileLocation,
                               CreationTs = NowMillis env\<rparr>
                  in case Insert env media of
                       Some err \<Rightarrow>
                         \<lparr>outcome = Return (Inl err), files = os_Remove fs1 fileLocation,
                          insertCalls = [media]\<rparr>
                     | None \<Rightarrow>
                         \<lparr>outcome = Return (Inr media), files = fs1,
                          insertCalls = [media]\<rparr>))))))"

section \<open>Concrete inputs\<close>

text \<open>
  A record already in the store, and an environment in which every collaborator
  succeeds: the upload is written to \<^verbatim>\<open>/media/tmp1\<close>, hashes to \<^verbatim>\<open>h1\<close>, the store
  answers \<^verbatim>\<open>GetByHash\<close> with the given records and \<^verbatim>\<open>Insert\<close> with the given result.
\<close>

definition stored_record :: Media where
  "stored_record =
     \<lparr>Origin = ''example.org'', MediaId = ''abc'', UploadName = ''cat.png'',
      ContentType = ''image/png'', UserId = ''@alice:example.org'', Sha256Hash = ''h1'',
      SizeBytes = 3, Location = ''/media/blob1'', CreationTs = 1\<rparr>"

definition example_env :: "Media list \<Rightarrow> error option \<Rightarrow> media_env" where
  "example_env records insertResult =
     \<lparr>GenerateRandomString = Inr ''generated'',
      PersistFile = (\<lambda>_. Inr ''/media/tmp1''),
      GetFileHash = (\<lambda>_. Inr ''h1''),
      GetByHash = (\<lambda>_. Inr records),
      FileExists = (\<lambda>fs path. (path \<in> fs, None)),
      FileSize = (\<lambda>_. Inr 3),
      Insert = (\<lambda>_. insertResult),
      NowMillis = 1000\<rparr>"

text \<open>
  For the fetcher: a matcher for patterns in which \<^verbatim>\<open>*\<close> stands for any run of
  characters, standing in for \<^verbatim>\<open>glob.Glob\<close>; a response with one header; an environment
  whose client answers every request with the given result; a URL, a configuration, a
  resolver that refuses every address and one that accepts every address and reports no
  port.
\<close>

fun wildcard :: "string \<Rightarrow> string \<Rightarrow> bool" where
  "wildcard [] s = (s = [])"
| "wildcard (p # ps) [] = (p = CHR ''*'' \<and> wildcard ps [])"
| "wildcard (p # ps) (c # cs) =
     (if p = CHR ''*'' then wildcard ps (c # cs) \<or> wildcard (p # ps) cs
      else p = c \<and> wildcard ps cs)"

definition example_response :: "int \<Rightarrow> int \<Rightarrow> string \<Rightarrow> bytes \<Rightarrow> Response" where
  "example_response status declared contentType body =
     \<lparr>StatusCode = status, ContentLength = declared,
      Header = [''Content-Type'' \<mapsto> contentType], Body = body\<rparr>"

definition example_http_env ::
  "(string \<Rightarrow> error + IP \<times> string) \<Rightarrow> error + Response \<Rightarrow> http_env" where
  "example_http_env resolver response =
     \<lparr>getSafeAddress = resolver,
      NewRequest = (\<lambda>method url. Inr \<lparr>Method = method, RequestURL = url, RequestHeader = []\<rparr>),
      ClientDo = (\<lambda>client req. response),
      Glob = wildcard,
      ParseMediaType = (\<lambda>v. (None, Some (Collaborator ''mime: no media type''))),
      ToUtf8 = (\<lambda>raw contentType. ''html'')\<rparr>"

definition example_url :: "string \<Rightarrow> string \<Rightarrow> UrlPayload" where
  "example_url scheme host = \<lparr>ParsedUrl = \<lparr>Scheme = scheme, Host = host, Path = ''/''\<rparr>\<rparr>"

definition example_config :: "bool \<Rightarrow> int \<Rightarrow> Config" where
  "example_config unsafe maxBytes =
     \<lparr>UnsafeCertificates = unsafe, UserAgent = ''matrix-media-repo'',
      MaxPageSizeBytes = maxBytes, TimeoutSeconds = 10\<rparr>"

definition deny_all :: "string \<Rightarrow> error + IP \<times> string" where
  "deny_all addr = Inl (Collaborator ''unsafe address'')"

definition resolve_no_port :: "string \<Rightarrow> error + IP \<times> string" where
  "resolve_no_port addr = Inr (IP ''203.0.113.7'', [])"

definition fetch_env :: "Response \<Rightarrow> http_env" where
  "fetch_env response = example_http_env resolve_no_port (Inr response)"

section \<open>Properties of the safe HTTP fetcher\<close>

subsection \<open>Helper facts\<close>

lemma JoinHostPort_nonempty: "JoinHostPort host port \<noteq> []"
  by (simp add: JoinHostPort_def)

lemma expectedPorts_alt:
  "expectedPorts u port = Inr (safePort, altPort) \<Longrightarrow>
     (altPort \<noteq> [] \<longrightarrow> port = []
        \<and> (Scheme (ParsedUrl u) = ''http'' \<and> safePort = ''80'' \<and> altPort = ''443''
           \<or> Scheme (ParsedUrl u) = ''https'' \<and> safePort = ''443'' \<and> altPort = ''80''))
   \<and> (port \<noteq> [] \<longrightarrow> safePort = port \<and> altPort = [])"
  by (auto simp: expectedPorts_def split: if_splits)

text \<open>
  Where the connection hook is what opens the connection: every request when
  certificates are checked, and every request that is not for an \<^verbatim>\<open>https\<close> URL.
\<close>

lemma Transport_dial_hook:
  "\<not> (UnsafeCertificates config \<and> scheme = ''https'') \<Longrightarrow>
     Transport_dial (ClientTransport (doHttpGet_client env u config)) scheme addr
       = dialContext env u ''tcp'' addr"
  by (auto simp: Transport_dial_def doHttpGet_client_def)

text \<open>
  Where it is not: an \<^verbatim>\<open>https\<close> request when certificates are not checked is dialled
  at the address as requested, whatever the resolver would say.
\<close>

lemma Transport_dial_unsafe_https:
  "UnsafeCertificates config \<Longrightarrow>
     Transport_dial (ClientTransport (doHttpGet_client env u config)) ''https'' addr
       = NetDialTLS ''tcp'' addr"
  by (simp add: Transport_dial_def doHttpGet_client_def dialTLS_def)

lemma doHttpGet_example:
  "snd (doHttpGet (fetch_env response) u lang config) = Inr response"
  by (simp add: doHttpGet_def fetch_env_def example_http_env_def Let_def)

text \<open>The loop over the supported types gives up at the first pattern that does not match.\<close>

lemma unsupportedType_iff:
  "unsupportedType env supportedTypes contentType
     = (\<exists>t\<in>set supportedTypes. \<not> Glob env t contentType)"
  by (induction supportedTypes) auto

text \<open>The checks of \<^verbatim>\<open>downloadRawContent\<close> on a response, in the order the code makes them.\<close>

lemma downloadRawContent_response:
  assumes "snd (doHttpGet env u lang config) = Inr resp"
  shows "snd (downloadRawContent env u supportedTypes lang config) =
     (if StatusCode resp \<noteq> 200 then Inl (ErrorsNew ''error during transfer'')
      else if MaxPageSizeBytes config > 0 \<and> ContentLength resp \<ge> 0
              \<and> ContentLength resp > MaxPageSizeBytes config then Inl ErrMediaTooLarge
      else if unsupportedType env supportedTypes (Header_Get (Header resp) ''Content-Type'')
        then Inl ErrPreviewUnsupported
      else Inr (if MaxPageSizeBytes config > 0
                then Some (take (nat (MaxPageSizeBytes config)) (Body resp)) else None,
                case fst (ParseMediaType env (Header_Get (Header resp) ''Content-Disposition'')) of
                  None \<Rightarrow> [] | Some params \<Rightarrow> params_filename params,
                Header_Get (Header resp) ''Content-Type''))"
  using assms
  by (cases "doHttpGet env u lang config")
     (auto simp: downloadRawContent_def Let_def)

lemma downloadImage_response:
  assumes "snd (doHttpGet env u lang config) = Inr resp"
  shows "StatusCode resp \<noteq> 200 \<Longrightarrow>
           snd (downloadImage env u lang config) = Inl (ErrorsNew ''error during transfer'')"
    and "StatusCode resp = 200 \<Longrightarrow> \<exists>image. snd (downloadImage env u lang config) = Inr image"
  using assms
  by (cases "doHttpGet env u lang config"; auto simp: downloadImage_def Let_def split: prod.splits)+

lemma status_logged:
  assumes "snd (doHttpGet env u lang config) = Inr resp" and "StatusCode resp \<noteq> 200"
  shows "last (fst (downloadRawContent env u supportedTypes lang config))
           = Warn (''Received status code '' @ Itoa (StatusCode resp))"
    and "last (fst (downloadImage env u lang config))
           = Warn (''Received status code '' @ Itoa (StatusCode resp))"
  using assms
  by (cases "doHttpGet env u lang config";
      auto simp: downloadRawContent_def downloadImage_def Let_def)+

subsection \<open>Claim C1: every connection goes through the resolver\<close>

text \<open>
  Claim C1 says that every connection \<^verbatim>\<open>doHttpGet\<close> makes, TLS connections in the
  unsafe-certificates mode included, is made only after \<^verbatim>\<open>getSafeAddress\<close> has accepted
  the target. The code at an \<^verbatim>\<open>https\<close> URL for \<^verbatim>\<open>127.0.0.1\<close> and a resolver that refuses
  every address: with certificates unchecked the transport has a \<^verbatim>\<open>DialTLS\<close> function,
  which is what opens the connection, and it dials the address as requested without
  calling the resolver; with certificates checked the hook is used and the dial is
  refused with the resolver's error.
\<close>

theorem doHttpGet_unsafe_certificates_dial:
  "Transport_dial
     (ClientTransport (doHttpGet_client (example_http_env deny_all (Inl (Collaborator ''unused'')))
        (example_url ''https'' ''127.0.0.1'') (example_config True 0)))
     ''https'' ''127.0.0.1:443''
     = NetDialTLS ''tcp'' ''127.0.0.1:443''
   \<and> Transport_dial
     (ClientTransport (doHttpGet_client (example_http_env deny_all (Inl (Collaborator ''unused'')))
        (example_url ''https'' ''127.0.0.1'') (example_config False 0)))
     ''https'' ''127.0.0.1:443''
     = DialError (Collaborator ''unsafe address'')"
  by (simp add: Transport_dial_def doHttpGet_client_def example_http_env_def example_url_def
      example_config_def deny_all_def dialTLS_def dialContext_def)

subsection \<open>Claim C2: the connection hook\<close>

text \<open>
  Claim C2, for every call of the hook \<^verbatim>\<open>dialContext\<close>.
  \<^item> When the hook dials, the network is \<^verbatim>\<open>tcp\<close>, the resolver accepted the requested
    address, and the requested address is the URL's host joined with the expected port,
    or with the alternate port, which is then not empty; the address dialled is the
    resolver's IP joined with the port that matched.
  \<^item> The alternate port is not empty only when the resolver reported no port for the
    requested address (the code's test for a URL without an explicit port); then
    \<^verbatim>\<open>http\<close> gives the ports 80 and 443, \<^verbatim>\<open>https\<close> 443 and 80.
  \<^item> A requested address that is neither of the two is refused with an error.
  \<^item> The hook never dials the requested address by \<^verbatim>\<open>net.Dial\<close>.
\<close>

theorem dialContext_permits_only_expected:
  "(\<forall>n returnAddr. dialContext env u network addr = DialerDialContext n returnAddr \<longrightarrow>
      (\<exists>safeIp port safePort altPort.
         network = ''tcp'' \<and> n = ''tcp''
       \<and> getSafeAddress env addr = Inr (safeIp, port)
       \<and> expectedPorts u port = Inr (safePort, altPort)
       \<and> (altPort \<noteq> [] \<longrightarrow> port = []
            \<and> (Scheme (ParsedUrl u) = ''http'' \<and> safePort = ''80'' \<and> altPort = ''443''
               \<or> Scheme (ParsedUrl u) = ''https'' \<and> safePort = ''443'' \<and> altPort = ''80''))
       \<and> (addr = JoinHostPort (Host (ParsedUrl u)) safePort
             \<and> returnAddr = JoinHostPort (IP_String safeIp) safePort
           \<or> altPort \<noteq> [] \<and> addr = JoinHostPort (Host (ParsedUrl u)) altPort
             \<and> returnAddr = JoinHostPort (IP_String safeIp) altPort)))
   \<and> (\<forall>safeIp port safePort altPort.
         network = ''tcp'' \<and> getSafeAddress env addr = Inr (safeIp, port)
       \<and> expectedPorts u port = Inr (safePort, altPort)
       \<and> addr \<noteq> JoinHostPort (Host (ParsedUrl u)) safePort
       \<and> (altPort = [] \<or> addr \<noteq> JoinHostPort (Host (ParsedUrl u)) altPort) \<longrightarrow>
         dialContext env u network addr
           = DialError (ErrorsNew ''unexpected host: not safe to complete request''))
   \<and> (\<forall>n a. dialContext env u network addr \<noteq> NetDialTLS n a)"
proof (intro conjI allI impI)
  fix n returnAddr
  assume d: "dialContext env u network addr = DialerDialContext n returnAddr"
  then have tcp: "network = ''tcp''"
    by (auto simp: dialContext_def split: if_splits)
  from d tcp obtain safeIp port where r: "getSafeAddress env addr = Inr (safeIp, port)"
    by (cases "getSafeAddress env addr") (auto simp: dialContext_def)
  from d tcp r obtain safePort altPort where p: "expectedPorts u port = Inr (safePort, altPort)"
    by (cases "expectedPorts u port") (auto simp: dialContext_def)
  from d tcp r p have
    "n = ''tcp''"
    "addr = JoinHostPort (Host (ParsedUrl u)) safePort
       \<and> returnAddr = JoinHostPort (IP_String safeIp) safePort
     \<or> altPort \<noteq> [] \<and> addr = JoinHostPort (Host (ParsedUrl u)) altPort
       \<and> returnAddr = JoinHostPort (IP_String safeIp) altPort"
    by (auto simp: dialContext_def Let_def JoinHostPort_nonempty split: if_splits)
  with tcp r p expectedPorts_alt [OF p]
  show "\<exists>safeIp port safePort altPort.
         network = ''tcp'' \<and> n = ''tcp''
       \<and> getSafeAddress env addr = Inr (safeIp, port)
       \<and> expectedPorts u port = Inr (safePort, altPort)
       \<and> (altPort \<noteq> [] \<longrightarrow> port = []
            \<and> (Scheme (ParsedUrl u) = ''http'' \<and> safePort = ''80'' \<and> altPort = ''443''
               \<or> Scheme (ParsedUrl u) = ''https'' \<and> safePort = ''443'' \<and> altPort = ''80''))
       \<and> (addr = JoinHostPort (Host (ParsedUrl u)) safePort
             \<and> returnAddr = JoinHostPort (IP_String safeIp) safePort
           \<or> altPort \<noteq> [] \<and> addr = JoinHostPort (Host (ParsedUrl u)) altPort
             \<and> returnAddr = JoinHostPort (IP_String safeIp) altPort)"
    by blast
next
  fix safeIp port safePort altPort
  assume "network = ''tcp'' \<and> getSafeAddress env addr = Inr (safeIp, port)
       \<and> expectedPorts u port = Inr (safePort, altPort)
       \<and> addr \<noteq> JoinHostPort (Host (ParsedUrl u)) safePort
       \<and> (altPort = [] \<or> addr \<noteq> JoinHostPort (Host (ParsedUrl u)) altPort)"
  then show "dialContext env u network addr
           = DialError (ErrorsNew ''unexpected host: not safe to complete request'')"
    by (auto simp: dialContext_def Let_def)
next
  fix n a
  show "dialContext env u network addr \<noteq> NetDialTLS n a"
    by (auto simp: dialContext_def Let_def split: sum.splits prod.splits)
qed

text \<open>
  Claim C2 at the URL \<^verbatim>\<open>http://example.org/\<close> and a resolver that reports no port: a
  dial to \<^verbatim>\<open>example.org:443\<close>, the alternate port, goes to the resolver's IP; a dial to
  \<^verbatim>\<open>other.org:80\<close> is refused.
\<close>

theorem dialContext_permits_only_expected_witness:
  "dialContext (example_http_env resolve_no_port (Inl (Collaborator ''unused'')))
     (example_url ''http'' ''example.org'') ''tcp'' ''example.org:443''
     = DialerDialContext ''tcp'' ''203.0.113.7:443''
   \<and> dialContext (example_http_env resolve_no_port (Inl (Collaborator ''unused'')))
     (example_url ''http'' ''example.org'') ''tcp'' ''other.org:80''
     = DialError (ErrorsNew ''unexpected host: not safe to complete request'')"
proof -
  let ?env = "example_http_env resolve_no_port (Inl (Collaborator ''unused''))"
  let ?u = "example_url ''http'' ''example.org''"
  have permitted: "dialContext ?env ?u ''tcp'' ''example.org:443''
      = DialerDialContext ''tcp'' ''203.0.113.7:443''"
    by (simp add: dialContext_def example_http_env_def example_url_def resolve_no_port_def
        expectedPorts_def JoinHostPort_def)
  have other: "''tcp'' = ''tcp''
       \<and> getSafeAddress ?env ''other.org:80'' = Inr (IP ''203.0.113.7'', [])
       \<and> expectedPorts ?u [] = Inr (''80'', ''443'')
       \<and> ''other.org:80'' \<noteq> JoinHostPort (Host (ParsedUrl ?u)) ''80''
       \<and> (''443'' = [] \<or> ''other.org:80'' \<noteq> JoinHostPort (Host (ParsedUrl ?u)) ''443'')"
    by (simp add: example_http_env_def example_url_def resolve_no_port_def
        expectedPorts_def JoinHostPort_def)
  from dialContext_permits_only_expected [of ?env ?u "''tcp''" "''other.org:80''"] other
  have "dialContext ?env ?u ''tcp'' ''other.org:80''
      = DialError (ErrorsNew ''unexpected host: not safe to complete request'')"
    by blast
  with permitted show ?thesis by simp
qed

subsection \<open>Claim C6: the supported content types\<close>

text \<open>
  Claim C6 says that a response whose content type matches at least one of the supplied
  patterns does not fail as unsupported. The code at the patterns \<^verbatim>\<open>text/*\<close> and
  \<^verbatim>\<open>image/*\<close> and a response of type \<^verbatim>\<open>text/html\<close>: the first pattern matches, and the
  fetch fails with \<^verbatim>\<open>ErrPreviewUnsupported\<close>, because the second does not.
\<close>

theorem downloadRawContent_one_pattern_matches:
  "Glob (fetch_env (example_response 200 (-1) ''text/html'' [1, 2, 3])) ''text/*'' ''text/html''
   \<and> snd (downloadRawContent (fetch_env (example_response 200 (-1) ''text/html'' [1, 2, 3]))
        (example_url ''http'' ''example.org'') [''text/*'', ''image/*''] ''en''
        (example_config False 10))
     = Inl ErrPreviewUnsupported"
  unfolding downloadRawContent_response [OF doHttpGet_example]
  by (simp add: fetch_env_def example_http_env_def example_response_def example_config_def
      Header_Get_def)

subsection \<open>Claim C7: the size ceiling\<close>

text \<open>
  Claim C7 says that with a maximum page size configured, a response that declares a
  larger length fails with the media-too-large error. The status is checked first: a
  response with status 404 that declares 100 bytes, against a maximum of 10, fails with
  the transfer error instead.
\<close>

theorem downloadRawContent_size_counterexample:
  "MaxPageSizeBytes (example_config False 10) > 0
   \<and> ContentLength (example_response 404 100 ''text/html'' [1, 2, 3]) \<ge> 0
   \<and> ContentLength (example_response 404 100 ''text/html'' [1, 2, 3])
        > MaxPageSizeBytes (example_config False 10)
   \<and> snd (downloadRawContent (fetch_env (example_response 404 100 ''text/html'' [1, 2, 3]))
        (example_url ''http'' ''example.org'') [''text/*''] ''en'' (example_config False 10))
     = Inl (ErrorsNew ''error during transfer'')"
  unfolding downloadRawContent_response [OF doHttpGet_example]
  by (simp add: example_response_def example_config_def)

text \<open>
  Claim C7 as amended: for a response with status 200 and a maximum page size above
  zero. A declared length above the maximum fails with \<^verbatim>\<open>ErrMediaTooLarge\<close>, and no
  reader is made. Otherwise the call does not fail with that error, and a reader it
  returns yields the first bytes of the body up to the maximum, whatever the length of
  the body.
\<close>

theorem downloadRawContent_size:
  assumes "snd (doHttpGet env u lang config) = Inr resp"
    and "StatusCode resp = 200"
    and "MaxPageSizeBytes config > 0"
  shows "(ContentLength resp > MaxPageSizeBytes config \<longrightarrow>
            snd (downloadRawContent env u supportedTypes lang config) = Inl ErrMediaTooLarge)
       \<and> (ContentLength resp \<le> MaxPageSizeBytes config \<longrightarrow>
            snd (downloadRawContent env u supportedTypes lang config) \<noteq> Inl ErrMediaTooLarge
          \<and> (\<forall>reader filename contentType.
               snd (downloadRawContent env u supportedTypes lang config)
                 = Inr (reader, filename, contentType) \<longrightarrow>
               (\<exists>bs. reader = Some bs \<and> bs = take (nat (MaxPageSizeBytes config)) (Body resp)
                  \<and> int (length bs) \<le> MaxPageSizeBytes config)))"
  using assms(2,3)
  by (auto simp: downloadRawContent_response [OF assms(1)] split: if_splits)

text \<open>
  The amended claim at a maximum of 3 bytes: a response that declares 100 bytes is too
  large; a response that declares no length and has a body of 5 bytes is cut to 3.
\<close>

theorem downloadRawContent_size_witness:
  "snd (downloadRawContent (fetch_env (example_response 200 100 ''text/html'' [1, 2, 3, 4, 5]))
        (example_url ''http'' ''example.org'') [''text/*''] ''en'' (example_config False 3))
     = Inl ErrMediaTooLarge
   \<and> snd (downloadRawContent (fetch_env (example_response 200 (-1) ''text/html'' [1, 2, 3, 4, 5]))
        (example_url ''http'' ''example.org'') [''text/*''] ''en'' (example_config False 3))
     = Inr (Some [1, 2, 3], [], ''text/html'')"
proof -
  let ?big = "example_response 200 100 ''text/html'' [1, 2, 3, 4, 5]"
  let ?open = "example_response 200 (-1) ''text/html'' [1, 2, 3, 4, 5]"
  let ?u = "example_url ''http'' ''example.org''"
  let ?c = "example_config False 3"
  have ok: "StatusCode ?big = 200" "StatusCode ?open = 200" "MaxPageSizeBytes ?c > 0"
    "ContentLength ?big > MaxPageSizeBytes ?c" "ContentLength ?open \<le> MaxPageSizeBytes ?c"
    by (simp_all add: example_response_def example_config_def)
  have got_big: "snd (doHttpGet (fetch_env ?big) ?u ''en'' ?c) = Inr ?big"
    by (rule doHttpGet_example)
  have got_open: "snd (doHttpGet (fetch_env ?open) ?u ''en'' ?c) = Inr ?open"
    by (rule doHttpGet_example)
  have result: "snd (downloadRawContent (fetch_env ?open) ?u [''text/*''] ''en'' ?c)
      = Inr (Some [1, 2, 3], [], ''text/html'')"
    unfolding downloadRawContent_response [OF doHttpGet_example]
    by (simp add: fetch_env_def example_http_env_def example_response_def example_config_def
        Header_Get_def)
  from downloadRawContent_size [OF got_big ok(1) ok(3), where supportedTypes = "[''text/*'']"]
    ok(4)
  have large: "snd (downloadRawContent (fetch_env ?big) ?u [''text/*''] ''en'' ?c)
      = Inl ErrMediaTooLarge"
    by blast
  from downloadRawContent_size [OF got_open ok(2) ok(3), where supportedTypes = "[''text/*'']"]
    ok(5) result
  have "\<exists>bs. Some [1, 2, 3] = Some bs \<and> bs = take (nat (MaxPageSizeBytes ?c)) (Body ?open)
      \<and> int (length bs) \<le> MaxPageSizeBytes ?c"
    by blast
  with large result show ?thesis by simp
qed

subsection \<open>Claim C9: the reader returned\<close>

text \<open>
  Claim C9 says that a call of \<^verbatim>\<open>downloadRawContent\<close> that returns without an error
  returns a reader that is not nil, also when no maximum page size is configured. The
  code at a maximum of 0 and a response with status 200 and a supported type: the call
  returns a nil reader and no error, and \<^verbatim>\<open>downloadHtmlContent\<close> panics on it.
\<close>

theorem downloadRawContent_nil_reader:
  "snd (downloadRawContent (fetch_env (example_response 200 (-1) ''text/html'' [1, 2, 3]))
        (example_url ''http'' ''example.org'') [''text/*''] ''en'' (example_config False 0))
     = Inr (None, [], ''text/html'')
   \<and> snd (downloadHtmlContent (fetch_env (example_response 200 (-1) ''text/html'' [1, 2, 3]))
        (example_url ''http'' ''example.org'') [''text/*''] ''en'' (example_config False 0))
     = Panic ''nil pointer dereference''"
proof -
  let ?raw = "downloadRawContent (fetch_env (example_response 200 (-1) ''text/html'' [1, 2, 3]))
        (example_url ''http'' ''example.org'') [''text/*''] ''en'' (example_config False 0)"
  have raw: "snd ?raw = Inr (None, [], ''text/html'')"
    unfolding downloadRawContent_response [OF doHttpGet_example]
    by (simp add: fetch_env_def example_http_env_def example_response_def example_config_def
        Header_Get_def)
  then have "snd (downloadHtmlContent
        (fetch_env (example_response 200 (-1) ''text/html'' [1, 2, 3]))
        (example_url ''http'' ''example.org'') [''text/*''] ''en'' (example_config False 0))
     = Panic ''nil pointer dereference''"
    by (cases ?raw) (simp add: downloadHtmlContent_def)
  with raw show ?thesis by simp
qed

subsection \<open>Claim C10: a status other than 200\<close>

text \<open>
  Claim C10 says that the error returned for a status other than 200 carries the status
  code. The responses with status 404 and with status 500 fail with one and the same
  error value, from \<^verbatim>\<open>downloadRawContent\<close> as from \<^verbatim>\<open>downloadImage\<close>: the error does not
  tell the status.
\<close>

theorem status_error_counterexample:
  "snd (downloadRawContent (fetch_env (example_response 404 (-1) ''text/html'' []))
        (example_url ''http'' ''example.org'') [''text/*''] ''en'' (example_config False 0))
     = Inl (ErrorsNew ''error during transfer'')
   \<and> snd (downloadRawContent (fetch_env (example_response 500 (-1) ''text/html'' []))
        (example_url ''http'' ''example.org'') [''text/*''] ''en'' (example_config False 0))
     = Inl (ErrorsNew ''error during transfer'')
   \<and> snd (downloadImage (fetch_env (example_response 404 (-1) ''image/png'' []))
        (example_url ''http'' ''example.org'') ''en'' (example_config False 0))
     = Inl (ErrorsNew ''error during transfer'')
   \<and> snd (downloadImage (fetch_env (example_response 500 (-1) ''image/png'' []))
        (example_url ''http'' ''example.org'') ''en'' (example_config False 0))
     = Inl (ErrorsNew ''error during transfer'')"
  unfolding downloadRawContent_response [OF doHttpGet_example]
  by (simp add: downloadImage_response(1) [OF doHttpGet_example] example_response_def)

text \<open>
  Claim C10 as amended, for every response \<^verbatim>\<open>doHttpGet\<close> hands to \<^verbatim>\<open>downloadRawContent\<close>
  or \<^verbatim>\<open>downloadImage\<close>. With a status other than 200 the fetch fails with the fixed
  error \<^verbatim>\<open>error during transfer\<close>, and the status code is written to the log, as the
  last entry. With status 200 the fetch does not fail with that error:
  \<^verbatim>\<open>downloadImage\<close> returns an image, and \<^verbatim>\<open>downloadRawContent\<close> goes on to its other
  checks.
\<close>

theorem status_not_ok_fails:
  assumes "snd (doHttpGet env u lang config) = Inr resp"
  shows "(StatusCode resp \<noteq> 200 \<longrightarrow>
            snd (downloadRawContent env u supportedTypes lang config)
              = Inl (ErrorsNew ''error during transfer'')
          \<and> snd (downloadImage env u lang config) = Inl (ErrorsNew ''error during transfer'')
          \<and> last (fst (downloadRawContent env u supportedTypes lang config))
              = Warn (''Received status code '' @ Itoa (StatusCode resp))
          \<and> last (fst (downloadImage env u lang config))
              = Warn (''Received status code '' @ Itoa (StatusCode resp)))
       \<and> (StatusCode resp = 200 \<longrightarrow>
            snd (downloadRawContent env u supportedTypes lang config)
              \<noteq> Inl (ErrorsNew ''error during transfer'')
          \<and> (\<exists>image. snd (downloadImage env u lang config) = Inr image))"
  using downloadImage_response [OF assms] status_logged [OF assms]
  by (auto simp: downloadRawContent_response [OF assms])

text \<open>
  The amended claim at a response with status 404, whose code is in the log and not in
  the error, and at a response with status 200.
\<close>

theorem status_not_ok_fails_witness:
  "snd (downloadRawContent (fetch_env (example_response 404 (-1) ''text/html'' []))
        (example_url ''http'' ''example.org'') [''text/*''] ''en'' (example_config False 0))
     = Inl (ErrorsNew ''error during transfer'')
   \<and> last (fst (downloadRawContent (fetch_env (example_response 404 (-1) ''text/html'' []))
        (example_url ''http'' ''example.org'') [''text/*''] ''en'' (example_config False 0)))
     = Warn ''Received status code 404''
   \<and> snd (downloadRawContent (fetch_env (example_response 200 (-1) ''text/html'' []))
        (example_url ''http'' ''example.org'') [''text/*''] ''en'' (example_config False 0))
     \<noteq> Inl (ErrorsNew ''error during transfer'')"
proof -
  let ?u = "example_url ''http'' ''example.org''"
  let ?c = "example_config False 0"
  have s: "StatusCode (example_response 404 (-1) ''text/html'' []) \<noteq> 200"
    "StatusCode (example_response 200 (-1) ''text/html'' []) = 200"
    "Itoa (StatusCode (example_response 404 (-1) ''text/html'' [])) = ''404''"
    by (simp_all add: example_response_def Itoa_def digits.simps digit_char_def)
  have g404: "snd (doHttpGet (fetch_env (example_response 404 (-1) ''text/html'' []))
      ?u ''en'' ?c) = Inr (example_response 404 (-1) ''text/html'' [])"
    by (rule doHttpGet_example)
  have g200: "snd (doHttpGet (fetch_env (example_response 200 (-1) ''text/html'' []))
      ?u ''en'' ?c) = Inr (example_response 200 (-1) ''text/html'' [])"
    by (rule doHttpGet_example)
  from status_not_ok_fails [OF g404, where supportedTypes = "[''text/*'']"] s(1,3)
  have a: "snd (downloadRawContent (fetch_env (example_response 404 (-1) ''text/html'' []))
        ?u [''text/*''] ''en'' ?c) = Inl (ErrorsNew ''error during transfer'')
     \<and> last (fst (downloadRawContent (fetch_env (example_response 404 (-1) ''text/html'' []))
        ?u [''text/*''] ''en'' ?c)) = Warn ''Received status code 404''"
    by simp
  from status_not_ok_fails [OF g200, where supportedTypes = "[''text/*'']"] s(2)
  have b: "snd (downloadRawContent (fetch_env (example_response 200 (-1) ''text/html'' []))
        ?u [''text/*''] ''en'' ?c) \<noteq> Inl (ErrorsNew ''error during transfer'')"
    by simp
  from a b show ?thesis by simp
qed

section \<open>Properties of the media service\<close>

subsection \<open>The loop over the duplicate records\<close>

lemma scanRecords_find:
  "scanRecords host mediaId g media records =
     (case find (\<lambda>r. Origin r = host \<and> (MediaId r = mediaId \<or> g)) records of
        Some m \<Rightarrow> Matched m
      | None \<Rightarrow> Unmatched (if records = [] then media else Some (last records)))"
  by (induction records arbitrary: media) (auto split: option.splits)

lemma overwrite_removes_temp:
  "tmp \<in> fs \<Longrightarrow> Location media \<noteq> tmp \<Longrightarrow>
     tmp \<notin> overwriteExistingOrDeleteTempFile env fs tmp media"
  by (simp add: overwriteExistingOrDeleteTempFile_def os_Rename_def os_Remove_def
      split: prod.splits)

subsection \<open>Claim C3: the temporary file\<close>

text \<open>
  Claim C3 says that once \<^verbatim>\<open>storage.PersistFile\<close> has succeeded, the temporary file no
  longer exists when \<^verbatim>\<open>StoreMedia\<close> returns, on every outcome, a new record and a failed
  insert of a synthesized duplicate included. Two runs show otherwise. With no duplicate
  in the store the call succeeds with a new record whose \<open>Location\<close> is the temporary
  location itself, and the file is still there: it is kept in place, neither renamed
  nor removed. With a duplicate under another identity and a store whose insert fails,
  the call returns the error and the file is still there as well.
\<close>

theorem StoreMedia_temp_file_counterexample:
  "PersistFile (example_env [] None) [1, 2, 3] = Inr ''/media/tmp1''
   \<and> outcome (StoreMedia (example_env [] None) {} [1, 2, 3]
        ''text/plain'' ''dog.txt'' ''@bob:other.org'' ''other.org'' ''xyz'')
       = Return (Inr \<lparr>Origin = ''other.org'', MediaId = ''xyz'', UploadName = ''dog.txt'',
           ContentType = ''text/plain'', UserId = ''@bob:other.org'', Sha256Hash = ''h1'',
           SizeBytes = 3, Location = ''/media/tmp1'', CreationTs = 1000\<rparr>)
   \<and> ''/media/tmp1'' \<in> files (StoreMedia (example_env [] None) {} [1, 2, 3]
        ''text/plain'' ''dog.txt'' ''@bob:other.org'' ''other.org'' ''xyz'')
   \<and> PersistFile (example_env [stored_record] (Some (Collaborator ''insert failed''))) [1, 2, 3]
       = Inr ''/media/tmp1''
   \<and> outcome (StoreMedia (example_env [stored_record] (Some (Collaborator ''insert failed'')))
        {''/media/blob1''} [1, 2, 3] ''text/plain'' ''dog.txt'' ''@bob:other.org''
        ''other.org'' ''xyz'')
       = Return (Inl (Collaborator ''insert failed''))
   \<and> ''/media/tmp1'' \<in> files (StoreMedia
        (example_env [stored_record] (Some (Collaborator ''insert failed'')))
        {''/media/blob1''} [1, 2, 3] ''text/plain'' ''dog.txt'' ''@bob:other.org''
        ''other.org'' ''xyz'')"
  by (simp add: StoreMedia_def example_env_def stored_record_def requestMediaId_def Let_def)

text \<open>
  Claim C3 as amended. Let \<^verbatim>\<open>PersistFile\<close> succeed with a temporary location that no
  record returned by \<^verbatim>\<open>GetByHash\<close> has as its \<open>Location\<close>. Then, when \<^verbatim>\<open>StoreMedia\<close>
  returns,
  \<^item> after a hash failure, a \<^verbatim>\<open>GetByHash\<close> failure, a size failure and a failed insert of
    a new record, the error is returned and no file is left at the temporary location;
  \<^item> after a match on host and media id among the duplicates, and after a duplicate under
    another identity whose synthesized record is inserted, the record is returned and no
    file is left at the temporary location (it was removed, or renamed to the record's
    \<open>Location\<close>);
  \<^item> after a new record is inserted, the file stays where it is: the temporary location
    is the \<open>Location\<close> of the record returned.
  Nothing is said about a synthesized record whose insert fails.
\<close>

theorem StoreMedia_temp_file:
  assumes req: "requestMediaId env requestedId = Return mediaId"
    and persist: "PersistFile env contents = Inr tmp"
    and fresh: "\<And>h rs r. GetFileHash env tmp = Inr h \<Longrightarrow> GetByHash env h = Inr rs \<Longrightarrow>
                  r \<in> set rs \<Longrightarrow> Location r \<noteq> tmp"
  shows "(let res = StoreMedia env fs contents contentType filename userId host requestedId in
          (\<forall>e. GetFileHash env tmp = Inl e \<longrightarrow> outcome res = Return (Inl e) \<and> tmp \<notin> files res)
        \<and> (\<forall>h e. GetFileHash env tmp = Inr h \<and> GetByHash env h = Inl e \<longrightarrow>
              outcome res = Return (Inl e) \<and> tmp \<notin> files res)
        \<and> (\<forall>h e. GetFileHash env tmp = Inr h \<and> GetByHash env h = Inr []
               \<and> FileSize env tmp = Inl e \<longrightarrow>
              outcome res = Return (Inl e) \<and> tmp \<notin> files res)
        \<and> (\<forall>h n m e. GetFileHash env tmp = Inr h \<and> GetByHash env h = Inr []
               \<and> FileSize env tmp = Inr n \<and> insertCalls res = [m] \<and> Insert env m = Some e \<longrightarrow>
              outcome res = Return (Inl e) \<and> tmp \<notin> files res)
        \<and> (\<forall>h n m. GetFileHash env tmp = Inr h \<and> GetByHash env h = Inr []
               \<and> FileSize env tmp = Inr n \<and> insertCalls res = [m] \<and> Insert env m = None \<longrightarrow>
              outcome res = Return (Inr m) \<and> Location m = tmp \<and> tmp \<in> files res)
        \<and> (\<forall>h rs r. GetFileHash env tmp = Inr h \<and> GetByHash env h = Inr rs \<and> r \<in> set rs
               \<and> Origin r = host \<and> (MediaId r = mediaId \<or> requestedId = '''') \<longrightarrow>
              (\<exists>m\<in>set rs. outcome res = Return (Inr m)) \<and> tmp \<notin> files res)
        \<and> (\<forall>h rs m. GetFileHash env tmp = Inr h \<and> GetByHash env h = Inr rs \<and> rs \<noteq> []
               \<and> (\<forall>r\<in>set rs. \<not> (Origin r = host \<and> (MediaId r = mediaId \<or> requestedId = '''')))
               \<and> insertCalls res = [m] \<and> Insert env m = None \<longrightarrow>
              outcome res = Return (Inr m) \<and> tmp \<notin> files res))"
proof -
  let ?res = "StoreMedia env fs contents contentType filename userId host requestedId"
  let ?P = "\<lambda>r. Origin r = host \<and> (MediaId r = mediaId \<or> requestedId = '''')"
  have hashFail: "outcome ?res = Return (Inl e) \<and> tmp \<notin> files ?res"
    if "GetFileHash env tmp = Inl e" for e
    using req persist that by (simp add: StoreMedia_def os_Remove_def)
  have lookupFail: "outcome ?res = Return (Inl e) \<and> tmp \<notin> files ?res"
    if "GetFileHash env tmp = Inr h" "GetByHash env h = Inl e" for h e
    using req persist that by (simp add: StoreMedia_def os_Remove_def)
  have sizeFail: "outcome ?res = Return (Inl e) \<and> tmp \<notin> files ?res"
    if "GetFileHash env tmp = Inr h" "GetByHash env h = Inr []" "FileSize env tmp = Inl e"
    for h e
    using req persist that by (simp add: StoreMedia_def os_Remove_def)
  have insertFail: "outcome ?res = Return (Inl e) \<and> tmp \<notin> files ?res"
    if "GetFileHash env tmp = Inr h" "GetByHash env h = Inr []" "FileSize env tmp = Inr n"
       "insertCalls ?res = [m]" "Insert env m = Some e" for h n m e
    using req persist that
    by (auto simp: StoreMedia_def os_Remove_def Let_def split: option.splits)
  have newRecord: "outcome ?res = Return (Inr m) \<and> Location m = tmp \<and> tmp \<in> files ?res"
    if "GetFileHash env tmp = Inr h" "GetByHash env h = Inr []" "FileSize env tmp = Inr n"
       "insertCalls ?res = [m]" "Insert env m = None" for h n m
    using req persist that
    by (auto simp: StoreMedia_def Let_def split: option.splits)
  have matched: "(\<exists>m\<in>set rs. outcome ?res = Return (Inr m)) \<and> tmp \<notin> files ?res"
    if h: "GetFileHash env tmp = Inr h" and rs: "GetByHash env h = Inr rs" and r: "r \<in> set rs"
      and p: "?P r" for h rs r
  proof -
    from r p have "\<exists>x\<in>set rs. ?P x" by blast
    then obtain m where m: "find ?P rs = Some m"
      by (cases "find ?P rs") (auto simp: find_None_iff)
    then have mem: "m \<in> set rs" by (auto simp: find_Some_iff)
    then have ne: "rs \<noteq> []" by auto
    from fresh [OF h rs mem] have loc: "Location m \<noteq> tmp" .
    have "tmp \<notin> overwriteExistingOrDeleteTempFile env (insert tmp fs) tmp m"
      using loc by (intro overwrite_removes_temp) simp_all
    then show ?thesis
      using req persist h rs m mem ne
      by (auto simp: StoreMedia_def scanRecords_find)
  qed
  have synthesized: "outcome ?res = Return (Inr m) \<and> tmp \<notin> files ?res"
    if h: "GetFileHash env tmp = Inr h" and rs: "GetByHash env h = Inr rs" and ne: "rs \<noteq> []"
      and no: "\<forall>r\<in>set rs. \<not> ?P r" and ins: "insertCalls ?res = [m]" "Insert env m = None"
    for h rs m
  proof -
    from no have none: "find ?P rs = None" by (simp add: find_None_iff)
    from ne have "last rs \<in> set rs" by simp
    from fresh [OF h rs this] have loc: "Location (last rs) \<noteq> tmp" .
    define m' where "m' = (last rs)\<lparr>Origin := host, UserId := userId, MediaId := mediaId,
        UploadName := filename, ContentType := contentType, CreationTs := NowMillis env\<rparr>"
    have "Location m' \<noteq> tmp" using loc by (simp add: m'_def)
    then have gone: "tmp \<notin> overwriteExistingOrDeleteTempFile env (insert tmp fs) tmp m'"
      by (intro overwrite_removes_temp) simp_all
    show ?thesis
      using req persist h rs ne none ins gone
      by (auto simp: StoreMedia_def scanRecords_find Let_def m'_def split: option.splits)
  qed
  show ?thesis
    unfolding Let_def
    using hashFail lookupFail sizeFail insertFail newRecord matched synthesized
    by blast
qed

text \<open>
  The amended claim at two runs: a request that matches the stored record on host and
  media id leaves no file at the temporary location; a request for content the store
  has not seen keeps the file there.
\<close>

theorem StoreMedia_temp_file_witness:
  "''/media/tmp1'' \<notin> files (StoreMedia (example_env [stored_record] None) {''/media/blob1''}
      [1, 2, 3] ''text/plain'' ''dog.txt'' ''@bob:example.org'' ''example.org'' ''abc'')
   \<and> ''/media/tmp1'' \<in> files (StoreMedia (example_env [] None) {}
      [1, 2, 3] ''text/plain'' ''dog.txt'' ''@bob:example.org'' ''example.org'' ''abc'')"
proof -
  let ?dup = "example_env [stored_record] None"
  let ?new = "example_env [] None"
  let ?m = "\<lparr>Origin = ''example.org'', MediaId = ''abc'', UploadName = ''dog.txt'',
      ContentType = ''text/plain'', UserId = ''@bob:example.org'', Sha256Hash = ''h1'',
      SizeBytes = 3, Location = ''/media/tmp1'', CreationTs = 1000\<rparr>"
  have req: "requestMediaId env ''abc'' = Return ''abc''" for env
    by (simp add: requestMediaId_def)
  have persist1: "PersistFile ?dup [1, 2, 3] = Inr ''/media/tmp1''"
    by (simp add: example_env_def)
  have persist2: "PersistFile ?new [1, 2, 3] = Inr ''/media/tmp1''"
    by (simp add: example_env_def)
  have fresh1: "GetFileHash ?dup ''/media/tmp1'' = Inr h \<Longrightarrow> GetByHash ?dup h = Inr rs \<Longrightarrow>
      r \<in> set rs \<Longrightarrow> Location r \<noteq> ''/media/tmp1''" for h rs r
    by (auto simp: example_env_def stored_record_def)
  have fresh2: "GetFileHash ?new ''/media/tmp1'' = Inr h \<Longrightarrow> GetByHash ?new h = Inr rs \<Longrightarrow>
      r \<in> set rs \<Longrightarrow> Location r \<noteq> ''/media/tmp1''" for h rs r
    by (auto simp: example_env_def)
  have match: "GetFileHash ?dup ''/media/tmp1'' = Inr ''h1''
      \<and> GetByHash ?dup ''h1'' = Inr [stored_record] \<and> stored_record \<in> set [stored_record]
      \<and> Origin stored_record = ''example.org''
      \<and> (MediaId stored_record = ''abc'' \<or> ''abc'' = '''')"
    by (simp add: example_env_def stored_record_def)
  have novel: "GetFileHash ?new ''/media/tmp1'' = Inr ''h1'' \<and> GetByHash ?new ''h1'' = Inr []
      \<and> FileSize ?new ''/media/tmp1'' = Inr 3
      \<and> insertCalls (StoreMedia ?new {} [1, 2, 3] ''text/plain'' ''dog.txt''
            ''@bob:example.org'' ''example.org'' ''abc'') = [?m]
      \<and> Insert ?new ?m = None"
    by (simp add: example_env_def StoreMedia_def requestMediaId_def Let_def)
  have gone: "''/media/tmp1'' \<notin> files (StoreMedia ?dup {''/media/blob1''}
      [1, 2, 3] ''text/plain'' ''dog.txt'' ''@bob:example.org'' ''example.org'' ''abc'')"
    using StoreMedia_temp_file [OF req persist1 fresh1, where fs = "{''/media/blob1''}"
        and contentType = "''text/plain''" and filename = "''dog.txt''"
        and userId = "''@bob:example.org''" and host = "''example.org''"] match
    by (simp add: Let_def)
  have kept: "''/media/tmp1'' \<in> files (StoreMedia ?new {}
      [1, 2, 3] ''text/plain'' ''dog.txt'' ''@bob:example.org'' ''example.org'' ''abc'')"
    using StoreMedia_temp_file [OF req persist2 fresh2, where fs = "{}"
        and contentType = "''text/plain''" and filename = "''dog.txt''"
        and userId = "''@bob:example.org''" and host = "''example.org''"] novel
    by (simp add: Let_def)
  from gone kept show ?thesis by simp
qed

subsection \<open>Claim C4: a duplicate under the same identity\<close>

text \<open>
  Claim C4. When some record the store returns for the computed hash has the request's
  host as its \<open>Origin\<close> and either the request's media id or the media id was generated,
  \<^verbatim>\<open>StoreMedia\<close> returns a record of the store unaltered, the first such record of the
  list, and calls \<^verbatim>\<open>store.Insert\<close> for nothing; the content type, file name and user id
  of the request play no part.
\<close>

theorem StoreMedia_identity_match:
  assumes "requestMediaId env requestedId = Return mediaId"
    and "PersistFile env contents = Inr fileLocation"
    and "GetFileHash env fileLocation = Inr hash"
    and "GetByHash env hash = Inr records"
    and "r \<in> set records"
    and "Origin r = host"
    and "MediaId r = mediaId \<or> requestedId = ''''"
  shows "\<exists>m. find (\<lambda>r. Origin r = host \<and> (MediaId r = mediaId \<or> requestedId = '''')) records
               = Some m
           \<and> m \<in> set records
           \<and> outcome (StoreMedia env fs contents contentType filename userId host requestedId)
               = Return (Inr m)
           \<and> insertCalls (StoreMedia env fs contents contentType filename userId host requestedId)
               = []"
proof -
  let ?P = "\<lambda>r. Origin r = host \<and> (MediaId r = mediaId \<or> requestedId = '''')"
  from assms(5-7) have "\<exists>x\<in>set records. ?P x" by blast
  then obtain m where m: "find ?P records = Some m"
    by (cases "find ?P records") (auto simp: find_None_iff)
  then have mem: "m \<in> set records"
    by (auto simp: find_Some_iff)
  from mem have ne: "records \<noteq> []" by auto
  show ?thesis
    using assms(1-4) m mem ne
    by (simp add: StoreMedia_def scanRecords_find)
qed

text \<open>
  Claim C4 at a request for the stored identity with another content type, file name
  and user id: the stored record comes back as it is.
\<close>

theorem StoreMedia_identity_match_witness:
  "outcome (StoreMedia (example_env [stored_record] None) {''/media/blob1''} [1, 2, 3]
      ''text/plain'' ''dog.txt'' ''@bob:example.org'' ''example.org'' ''abc'')
     = Return (Inr stored_record)
   \<and> insertCalls (StoreMedia (example_env [stored_record] None) {''/media/blob1''} [1, 2, 3]
      ''text/plain'' ''dog.txt'' ''@bob:example.org'' ''example.org'' ''abc'') = []"
  using StoreMedia_identity_match [where env = "example_env [stored_record] None"
      and requestedId = "''abc''" and mediaId = "''abc''" and contents = "[1, 2, 3]"
      and fileLocation = "''/media/tmp1''" and hash = "''h1''" and records = "[stored_record]"
      and r = stored_record and host = "''example.org''" and fs = "{''/media/blob1''}"
      and contentType = "''text/plain''" and filename = "''dog.txt''"
      and userId = "''@bob:example.org''"]
  by (simp add: example_env_def stored_record_def requestMediaId_def)

subsection \<open>Claim C5: a duplicate under another identity\<close>

text \<open>
  Claim C5. When the store returns records for the computed hash and none of them
  matches the request (a match being what the loop tests: the request's host, and the
  request's media id unless that was generated), \<^verbatim>\<open>StoreMedia\<close> hands exactly one record
  to \<^verbatim>\<open>store.Insert\<close>: it has the hash, size and location of the last record of the
  list, and the origin, media id, user id, upload name, content type and creation time
  of the request. That record is what the call returns when the insert succeeds; when
  the insert fails, the call returns the store's error.
\<close>

theorem StoreMedia_duplicate_synthesis:
  assumes "requestMediaId env requestedId = Return mediaId"
    and "PersistFile env contents = Inr fileLocation"
    and "GetFileHash env fileLocation = Inr hash"
    and "GetByHash env hash = Inr records"
    and "records \<noteq> []"
    and "\<forall>r\<in>set records. \<not> (Origin r = host \<and> (MediaId r = mediaId \<or> requestedId = ''''))"
  shows "\<exists>m. insertCalls (StoreMedia env fs contents contentType filename userId host requestedId)
               = [m]
           \<and> Sha256Hash m = Sha256Hash (last records)
           \<and> SizeBytes m = SizeBytes (last records)
           \<and> Location m = Location (last records)
           \<and> Origin m = host \<and> MediaId m = mediaId \<and> UserId m = userId
           \<and> UploadName m = filename \<and> ContentType m = contentType
           \<and> CreationTs m = NowMillis env
           \<and> outcome (StoreMedia env fs contents contentType filename userId host requestedId)
               = (case Insert env m of None \<Rightarrow> Return (Inr m) | Some err \<Rightarrow> Return (Inl err))"
proof -
  let ?P = "\<lambda>r. Origin r = host \<and> (MediaId r = mediaId \<or> requestedId = '''')"
  from assms(6) have none: "find ?P records = None"
    by (simp add: find_None_iff)
  show ?thesis
    using assms(1-5) none
    by (simp add: StoreMedia_def scanRecords_find Let_def split: option.splits)
qed

text \<open>
  Claim C5 at a request for the stored bytes under another origin and media id.
\<close>

theorem StoreMedia_duplicate_synthesis_witness:
  "insertCalls (StoreMedia (example_env [stored_record] None) {''/media/blob1''} [1, 2, 3]
      ''text/plain'' ''dog.txt'' ''@bob:other.org'' ''other.org'' ''xyz'')
     = [\<lparr>Origin = ''other.org'', MediaId = ''xyz'', UploadName = ''dog.txt'',
         ContentType = ''text/plain'', UserId = ''@bob:other.org'', Sha256Hash = ''h1'',
         SizeBytes = 3, Location = ''/media/blob1'', CreationTs = 1000\<rparr>]
   \<and> outcome (StoreMedia (example_env [stored_record] None) {''/media/blob1''} [1, 2, 3]
      ''text/plain'' ''dog.txt'' ''@bob:other.org'' ''other.org'' ''xyz'')
     = Return (Inr \<lparr>Origin = ''other.org'', MediaId = ''xyz'', UploadName = ''dog.txt'',
         ContentType = ''text/plain'', UserId = ''@bob:other.org'', Sha256Hash = ''h1'',
         SizeBytes = 3, Location = ''/media/blob1'', CreationTs = 1000\<rparr>)"
  using StoreMedia_duplicate_synthesis [where env = "example_env [stored_record] None"
      and requestedId = "''xyz''" and mediaId = "''xyz''" and contents = "[1, 2, 3]"
      and fileLocation = "''/media/tmp1''" and hash = "''h1''" and records = "[stored_record]"
      and host = "''other.org''" and fs = "{''/media/blob1''}"
      and contentType = "''text/plain''" and filename = "''dog.txt''"
      and userId = "''@bob:other.org''"]
  by (auto simp: example_env_def stored_record_def requestMediaId_def intro!: Media.equality)

end
